theory Spec2Isabelle
  imports Main "HOL-Library.Char_ord" "HOL-Library.List_Lexorder" "HOL-Library.Multiset"
begin

section \<open>Exceptions\<close>

text \<open>
  Every Python exception that the modelled code can raise is a value of \<open>exn\<close>; a
  computation that may raise has type \<open>exn + 'a\<close>, with \<open>Inl\<close> the raised exception.
  \<open>RequestNotValidError\<close> carries its status code and message
  (\<^verbatim>\<open>tiny_utils/network.py\<close>); the others are built-in or library exceptions.
\<close>

datatype exn =
    AssertionError
  | KeyError string
  | ValueError string
  | TypeError
  | AttributeError
  | HTTPError nat
  | RuntimeWarning string
  | OSError string
  | LibraryError string
  | RequestNotValidError nat string

text \<open>
  \<^verbatim>\<open>RequestNotValidError.__init__\<close>: a status code outside \<open>[400, 500)\<close> raises
  \<open>ValueError\<close> instead of building the exception.
\<close>

definition new_RequestNotValidError :: "nat \<Rightarrow> string \<Rightarrow> exn" where
  "new_RequestNotValidError status_code message =
     (if \<not> (400 \<le> status_code \<and> status_code < 500)
      then ValueError ''status_code must be in [400, 500)''
      else RequestNotValidError status_code message)"

section \<open>The semver library and the registry document\<close>

text \<open>
  \<^verbatim>\<open>nodesemver\<close> is a third-party package, not part of the repository. The three entry
  points the code calls are parameters: \<open>valid\<close> returns a parsed version object, \<open>None\<close>, or
  raises; \<open>Range\<close> builds a range object or raises; \<open>satisfies\<close> tests a version string
  against a range object, or raises.
\<close>

record ('v, 'r) nodesemver =
  valid :: "string \<Rightarrow> bool \<Rightarrow> exn + 'v option"
  Range :: "string \<Rightarrow> bool \<Rightarrow> exn + 'r"
  satisfies :: "string \<Rightarrow> 'r \<Rightarrow> exn + bool"

text \<open>
  \<^verbatim>\<open>ValidRegistryJson\<close>: both mappings are Python dicts, modelled as association lists in
  insertion order (the order \<^verbatim>\<open>.keys()\<close> and \<^verbatim>\<open>.values()\<close> iterate in).
\<close>

record DistObjectJson =
  tarball :: string

record VersionValueJson =
  dist :: DistObjectJson

record ValidRegistryJson =
  dist_tags :: "(string \<times> string) list"
  versions :: "(string \<times> VersionValueJson) list"

definition dict_keys :: "('k \<times> 'a) list \<Rightarrow> 'k list" where
  "dict_keys d = map fst d"

definition dict_values :: "('k \<times> 'a) list \<Rightarrow> 'a list" where
  "dict_values d = map snd d"

text \<open>\<^verbatim>\<open>k in d\<close> and \<^verbatim>\<open>d[k]\<close> on a dict with string keys.\<close>

definition dict_contains :: "(string \<times> 'a) list \<Rightarrow> string \<Rightarrow> bool" where
  "dict_contains d k = (map_of d k \<noteq> None)"

definition dict_getitem :: "(string \<times> 'a) list \<Rightarrow> string \<Rightarrow> exn + 'a" where
  "dict_getitem d k = (case map_of d k of None \<Rightarrow> Inl (KeyError k) | Some v \<Rightarrow> Inr v)"

section \<open>\<^verbatim>\<open>tiny_utils/node_ecosys.py\<close>: version predicates\<close>

text \<open>
  \<^verbatim>\<open>is_valid_version\<close>: \<^verbatim>\<open>bool(nodesemver.valid(version_str, False))\<close> inside a
  \<^verbatim>\<open>try\<close> whose bare \<^verbatim>\<open>except\<close> returns \<open>False\<close>. A version object is truthy,
  \<open>None\<close> is falsy.
\<close>

definition is_valid_version :: "('v, 'r) nodesemver \<Rightarrow> string \<Rightarrow> bool" where
  "is_valid_version lib version_str =
     (case valid lib version_str False of
        Inl e \<Rightarrow> False
      | Inr None \<Rightarrow> False
      | Inr (Some v) \<Rightarrow> True)"

text \<open>
  \<^verbatim>\<open>NodeVersionRange.__init__\<close> (with the default \<^verbatim>\<open>loose = False\<close>) and
  \<^verbatim>\<open>NodeVersionRange.__contains__\<close>. The object is represented by the library's range
  object; the remembered raw string is only used for printing.
\<close>

definition NodeVersionRange :: "('v, 'r) nodesemver \<Rightarrow> string \<Rightarrow> exn + 'r" where
  "NodeVersionRange lib range_str = Range lib range_str False"

definition range_contains :: "('v, 'r) nodesemver \<Rightarrow> 'r \<Rightarrow> string \<Rightarrow> exn + bool" where
  "range_contains lib ver_range version = satisfies lib version ver_range"

section \<open>\<^verbatim>\<open>FeasibleVersionsList.make\<close>\<close>

record FeasibleVersionsList =
  feasible_versions :: "string list"
  version_is_designated :: bool

text \<open>
  A list comprehension \<^verbatim>\<open>[x for x in xs if p(x)]\<close> whose test may raise: the elements are
  tested left to right and the first exception ends the comprehension.
\<close>

fun filter_raising :: "('a \<Rightarrow> exn + bool) \<Rightarrow> 'a list \<Rightarrow> exn + 'a list" where
  "filter_raising p [] = Inr []"
| "filter_raising p (x # xs) =
     (case p x of
        Inl e \<Rightarrow> Inl e
      | Inr b \<Rightarrow>
          (case filter_raising p xs of
             Inl e \<Rightarrow> Inl e
           | Inr ys \<Rightarrow> Inr (if b then x # ys else ys)))"

text \<open>The body of the first \<^verbatim>\<open>try\<close> block: build the range, then filter the keys.\<close>

definition range_attempt ::
  "('v, 'r) nodesemver \<Rightarrow> string \<Rightarrow> ValidRegistryJson \<Rightarrow> exn + FeasibleVersionsList" where
  "range_attempt lib version_spec_str registry_json =
     (case NodeVersionRange lib version_spec_str of
        Inl e \<Rightarrow> Inl e
      | Inr ver_range \<Rightarrow>
          (case filter_raising (range_contains lib ver_range)
                  (dict_keys (versions registry_json)) of
             Inl e \<Rightarrow> Inl e
           | Inr vs \<Rightarrow>
               Inr \<lparr>feasible_versions = vs, version_is_designated = False\<rparr>))"

text \<open>The body of the second \<^verbatim>\<open>try\<close> block: look the specifier up as a dist-tag.\<close>

definition tag_attempt :: "string \<Rightarrow> ValidRegistryJson \<Rightarrow> exn + FeasibleVersionsList" where
  "tag_attempt version_spec_str registry_json =
     (if \<not> dict_contains (dist_tags registry_json) version_spec_str
      then Inr \<lparr>feasible_versions = [], version_is_designated = False\<rparr>
      else (case dict_getitem (dist_tags registry_json) version_spec_str of
              Inl e \<Rightarrow> Inl e
            | Inr ver \<Rightarrow>
                Inr \<lparr>feasible_versions = [ver], version_is_designated = True\<rparr>))"

text \<open>
  The whole method. Each \<^verbatim>\<open>try: ... except: pass\<close> returns the value of its body when
  the body returns, and continues with the next statement when the body raises.
\<close>

definition FeasibleVersionsList_make ::
  "('v, 'r) nodesemver \<Rightarrow> string \<Rightarrow> ValidRegistryJson \<Rightarrow> exn + FeasibleVersionsList" where
  "FeasibleVersionsList_make lib version_spec_str registry_json =
     (if version_spec_str = ''dist-tags''
      then Inr \<lparr>feasible_versions = dict_values (dist_tags registry_json),
                version_is_designated = False\<rparr>
      else if version_spec_str = ''all''
      then Inr \<lparr>feasible_versions = dict_keys (versions registry_json),
                version_is_designated = False\<rparr>
      else if is_valid_version lib version_spec_str
      then (if \<not> dict_contains (versions registry_json) version_spec_str
            then Inr \<lparr>feasible_versions = [], version_is_designated = False\<rparr>
            else Inr \<lparr>feasible_versions = [version_spec_str],
                      version_is_designated = True\<rparr>)
      else (case range_attempt lib version_spec_str registry_json of
              Inr res \<Rightarrow> Inr res
            | Inl e1 \<Rightarrow>
                (case tag_attempt version_spec_str registry_json of
                   Inr res \<Rightarrow> Inr res
                 | Inl e2 \<Rightarrow>
                     Inr \<lparr>feasible_versions = [], version_is_designated = False\<rparr>)))"

section \<open>\<^verbatim>\<open>tiny_utils/network.py\<close>: parsing the request path\<close>

text \<open>
  Python string primitives used by the parser. \<open>str_find c s start\<close> is
  \<^verbatim>\<open>s.find(c, start)\<close> for a one-character needle, with \<open>None\<close> for \<open>-1\<close>;
  \<open>str_split sep s\<close> is \<^verbatim>\<open>s.split(sep)\<close> for a one-character separator.
\<close>

fun find_char :: "char \<Rightarrow> nat \<Rightarrow> string \<Rightarrow> nat \<Rightarrow> nat option" where
  "find_char c start [] i = None"
| "find_char c start (x # xs) i =
     (if start \<le> i \<and> x = c then Some i else find_char c start xs (Suc i))"

definition str_find :: "char \<Rightarrow> string \<Rightarrow> nat \<Rightarrow> nat option" where
  "str_find c s start = find_char c start s 0"

fun str_split :: "char \<Rightarrow> string \<Rightarrow> string list" where
  "str_split sep [] = [[]]"
| "str_split sep (c # cs) =
     (if c = sep then [] # str_split sep cs
      else (case str_split sep cs of
              [] \<Rightarrow> [[c]]
            | w # ws \<Rightarrow> (c # w) # ws))"

definition startswith :: "string \<Rightarrow> string \<Rightarrow> bool" where
  "startswith s pre = (take (length pre) s = pre)"

definition endswith :: "string \<Rightarrow> string \<Rightarrow> bool" where
  "endswith s suf = (length suf \<le> length s \<and> drop (length s - length suf) s = suf)"

text \<open>
  \<^verbatim>\<open>PurePosixPathThatMightBeDir\<close> (\<^verbatim>\<open>tiny_utils/general.py\<close>): the path object is
  represented by the string it was built from, together with the remembered flag
  \<^verbatim>\<open>_is_dir = path.endswith('/')\<close>. A pure POSIX path is absolute exactly when its
  text starts with a slash.
\<close>

record PurePosixPathThatMightBeDir =
  path_text :: string
  is_dir :: bool

definition new_PurePosixPathThatMightBeDir :: "string \<Rightarrow> PurePosixPathThatMightBeDir" where
  "new_PurePosixPathThatMightBeDir p = \<lparr>path_text = p, is_dir = endswith p ''/''\<rparr>"

definition is_absolute :: "PurePosixPathThatMightBeDir \<Rightarrow> bool" where
  "is_absolute p = startswith (path_text p) ''/''"

record PathInfo =
  package_name :: string
  version_spec_str :: string
  obj_absolute_path :: "PurePosixPathThatMightBeDir option"

text \<open>A text between two apostrophes, and between two backquotes.\<close>

definition quoted_path :: "string \<Rightarrow> string" where
  "quoted_path p = [CHR 0x27] @ p @ [CHR 0x27]"

definition backquoted :: "string \<Rightarrow> string" where
  "backquoted p = [CHR 0x60] @ p @ [CHR 0x60]"

definition Couldnt :: string where
  "Couldnt = ''Couldn'' @ [CHR 0x27] @ ''t''"

text \<open>
  \<^verbatim>\<open>PathInfo.make\<close>. \<open>head\<close> is the slice \<^verbatim>\<open>path[1:slash_ind]\<close>, where
  \<^verbatim>\<open>slash_ind\<close> has been reset to \<^verbatim>\<open>None\<close> when no slash follows position 0. The
  unpacking of \<^verbatim>\<open>head.split('@')\<close> into two names raises \<open>ValueError\<close> unless the
  split has exactly two parts.
\<close>

definition PathInfo_make :: "string \<Rightarrow> exn + PathInfo" where
  "PathInfo_make path =
     (if \<not> startswith path ''/'' then Inl AssertionError
      else
        let slash_ind = str_find CHR ''/'' path 1;
            obj = (case slash_ind of
                     None \<Rightarrow> None
                   | Some i \<Rightarrow> Some (new_PurePosixPathThatMightBeDir (drop i path)));
            head = (case slash_ind of
                      None \<Rightarrow> drop 1 path
                    | Some i \<Rightarrow> drop 1 (take i path))
        in
          if (case obj of None \<Rightarrow> False | Some p \<Rightarrow> \<not> is_absolute p)
          then Inl AssertionError
          else if count_list head CHR ''@'' = 0
          then (if head = []
                then Inl (new_RequestNotValidError 400
                            (''package_name is empty, path: '' @ quoted_path path))
                else Inr \<lparr>package_name = head, version_spec_str = ''latest'',
                          obj_absolute_path = obj\<rparr>)
          else if count_list head CHR ''@'' = 1
          then (case str_split CHR ''@'' head of
                  [name, spec] \<Rightarrow>
                    if name = []
                    then Inl (new_RequestNotValidError 400
                                (''package_name is empty, path: '' @ quoted_path path))
                    else if spec = []
                    then Inl (new_RequestNotValidError 400
                                (''version_spec_str is empty, path: '' @ quoted_path path))
                    else Inr \<lparr>package_name = name, version_spec_str = spec,
                              obj_absolute_path = obj\<rparr>
                | _ \<Rightarrow> Inl (ValueError ''wrong number of values to unpack''))
          else Inl (new_RequestNotValidError 400
                      (''too many '' @ quoted_path ''@'' @ ''s in name and version part, path: ''
                         @ quoted_path path)))"

text \<open>
  The condition of the specification for a malformed request, on the segment between
  position 1 and the first later slash (or the end of the path): the part before the
  first \<open>@\<close> is empty, or there is exactly one \<open>@\<close> and nothing after it, or there is
  more than one \<open>@\<close>.
\<close>

definition path_segment :: "string \<Rightarrow> string" where
  "path_segment path = takeWhile (\<lambda>c. c \<noteq> CHR ''/'') (drop 1 path)"

definition segment_malformed :: "string \<Rightarrow> bool" where
  "segment_malformed seg =
     (takeWhile (\<lambda>c. c \<noteq> CHR ''@'') seg = []
      \<or> (count_list seg CHR ''@'' = 1 \<and> drop 1 (dropWhile (\<lambda>c. c \<noteq> CHR ''@'') seg) = [])
      \<or> 1 < count_list seg CHR ''@'')"

definition is_malformed_request :: "exn + PathInfo \<Rightarrow> bool" where
  "is_malformed_request r =
     (case r of
        Inl (RequestNotValidError status_code message) \<Rightarrow>
          400 \<le> status_code \<and> status_code < 500
      | _ \<Rightarrow> False)"

definition parse_succeeds :: "exn + PathInfo \<Rightarrow> bool" where
  "parse_succeeds r = (case r of Inr info \<Rightarrow> True | Inl e \<Rightarrow> False)"

section \<open>\<^verbatim>\<open>find_entry_file_from_package_json\<close>\<close>

text \<open>
  The value \<^verbatim>\<open>json.load\<close> returns. Objects are dicts (association lists, as above);
  of a number only its not being a string matters, so it keeps its literal text.
\<close>

datatype json =
    JNull
  | JBool bool
  | JNumber string
  | JString string
  | JArray "json list"
  | JObject "(string \<times> json) list"

text \<open>
  \<^verbatim>\<open>value[key]\<close> with a string key: a dict looks the key up (\<open>KeyError\<close> when absent);
  a list or a string rejects a string index and every other value is not subscriptable,
  both with \<open>TypeError\<close>.
\<close>

fun json_getitem :: "json \<Rightarrow> string \<Rightarrow> exn + json" where
  "json_getitem (JObject d) k = dict_getitem d k"
| "json_getitem (JArray xs) k = Inl TypeError"
| "json_getitem (JString s) k = Inl TypeError"
| "json_getitem (JNumber n) k = Inl TypeError"
| "json_getitem (JBool b) k = Inl TypeError"
| "json_getitem JNull k = Inl TypeError"

text \<open>\<^verbatim>\<open>assert isinstance(res, str); return res\<close>\<close>

fun assert_str :: "json \<Rightarrow> exn + string" where
  "assert_str (JString s) = Inr s"
| "assert_str v = Inl AssertionError"

text \<open>A chain of subscripts \<^verbatim>\<open>value[k1][k2]...\<close>, evaluated left to right.\<close>

fun json_getpath :: "json \<Rightarrow> string list \<Rightarrow> exn + json" where
  "json_getpath v [] = Inr v"
| "json_getpath v (k # ks) =
     (case json_getitem v k of Inl e \<Rightarrow> Inl e | Inr w \<Rightarrow> json_getpath w ks)"

text \<open>The body of one \<^verbatim>\<open>try\<close> block of the function.\<close>

definition entry_attempt :: "json \<Rightarrow> string list \<Rightarrow> exn + string" where
  "entry_attempt package_json ks =
     (case json_getpath package_json ks of Inl e \<Rightarrow> Inl e | Inr res \<Rightarrow> assert_str res)"

definition find_entry_file_from_package_json :: "json \<Rightarrow> exn + string option" where
  "find_entry_file_from_package_json package_json =
     (case entry_attempt package_json [''jsdelivr''] of
        Inr res \<Rightarrow> Inr (Some res)
      | Inl e1 \<Rightarrow>
     (case entry_attempt package_json [''exports'', ''.'', ''default''] of
        Inr res \<Rightarrow> Inr (Some res)
      | Inl e2 \<Rightarrow>
     (case entry_attempt package_json [''exports'', ''.''] of
        Inr res \<Rightarrow> Inr (Some res)
      | Inl e3 \<Rightarrow>
     (case entry_attempt package_json [''main''] of
        Inr res \<Rightarrow> Inr (Some res)
      | Inl e4 \<Rightarrow> Inr None))))"

text \<open>
  The specification's reading: a field ``exists and is a string'' when following its
  keys through nested objects ends at a string; the derived path is the first of the
  four fields, in order, for which this is so.
\<close>

fun string_field :: "json \<Rightarrow> string list \<Rightarrow> string option" where
  "string_field (JString s) [] = Some s"
| "string_field (JObject d) (k # ks) =
     (case map_of d k of None \<Rightarrow> None | Some v \<Rightarrow> string_field v ks)"
| "string_field v ks = None"

fun first_present :: "'a option list \<Rightarrow> 'a option" where
  "first_present [] = None"
| "first_present (None # xs) = first_present xs"
| "first_present (Some x # xs) = Some x"

definition entry_file_spec :: "json \<Rightarrow> string option" where
  "entry_file_spec package_json =
     first_present
       [string_field package_json [''jsdelivr''],
        string_field package_json [''exports'', ''.'', ''default''],
        string_field package_json [''exports'', ''.''],
        string_field package_json [''main'']]"

section \<open>The cache folder and its size report\<close>

text \<open>
  What the file system holds below a directory: a regular file with its content (its
  size in bytes is the length of the content) or a directory with its entries by name,
  in the order \<^verbatim>\<open>os.listdir\<close> returns them.
\<close>

datatype node = File string | Dir "(string \<times> node) list"

definition CACHE_FOLDER :: string where
  "CACHE_FOLDER = ''tiny_jsdelivr_cache''"

definition CACHE_FOLDER_SIZE_THRESHOLD :: nat where
  "CACHE_FOLDER_SIZE_THRESHOLD = (2 ^ 20) * 1"

text \<open>
  \<^verbatim>\<open>get_entry_size\<close> and \<^verbatim>\<open>get_folder_size\<close> (\<^verbatim>\<open>tiny_utils/general.py\<close>), on the node
  found at the path: \<^verbatim>\<open>os.path.getsize\<close> for a regular file, otherwise the sum over
  the directory's entries.
\<close>

fun get_entry_size :: "node \<Rightarrow> nat"
  and get_folder_size :: "(string \<times> node) list \<Rightarrow> nat" where
  "get_entry_size (File content) = length content"
| "get_entry_size (Dir entries) = get_folder_size entries"
| "get_folder_size [] = 0"
| "get_folder_size ((f, n) # entries) = get_entry_size n + get_folder_size entries"

fun isdir :: "node \<Rightarrow> bool" where
  "isdir (Dir entries) = True"
| "isdir (File content) = False"

text \<open>
  The list \<^verbatim>\<open>ls\<close> of \<^verbatim>\<open>report_cache_folder_size\<close>: for each entry of the cache
  folder its size and its name, the name followed by a slash when the entry is a
  directory.
\<close>

definition size_and_label :: "string \<times> node \<Rightarrow> nat \<times> string" where
  "size_and_label e =
     (get_entry_size (snd e), if isdir (snd e) then fst e @ ''/'' else fst e)"

text \<open>
  \<^verbatim>\<open>compare_size_entry\<close>: both assertions raise \<open>AssertionError\<close>. Strings compare
  as Python compares them, lexicographically by character code.
\<close>

definition compare_size_entry :: "nat \<times> string \<Rightarrow> nat \<times> string \<Rightarrow> exn + int" where
  "compare_size_entry lhs rhs =
     (let size1 = fst lhs; entry1 = snd lhs; size2 = fst rhs; entry2 = snd rhs in
      if \<not> entry1 \<noteq> entry2 then Inl AssertionError
      else if size1 < size2 then Inr 1
      else if size1 > size2 then Inr (- 1)
      else if entry1 < entry2 then Inr (- 1)
      else if entry1 > entry2 then Inr 1
      else Inl AssertionError)"

text \<open>
  \<^verbatim>\<open>cmp_to_key(compare_size_entry)\<close>: sorting compares two keys with \<open><\<close>, which calls
  the comparison function and tests its result for being negative.
\<close>

definition key_less :: "nat \<times> string \<Rightarrow> nat \<times> string \<Rightarrow> exn + bool" where
  "key_less a b =
     (case compare_size_entry a b of Inl e \<Rightarrow> Inl e | Inr c \<Rightarrow> Inr (c < 0))"

text \<open>
  \<^verbatim>\<open>heapq.nsmallest(n, ls, key=...)\<close> is documented as equivalent to
  \<^verbatim>\<open>sorted(ls, key=...)[:n]\<close>. The sort is modelled as a stable insertion sort whose
  comparisons may raise; the first exception ends it.
\<close>

fun insert_raising :: "('a \<Rightarrow> 'a \<Rightarrow> exn + bool) \<Rightarrow> 'a \<Rightarrow> 'a list \<Rightarrow> exn + 'a list" where
  "insert_raising lt x [] = Inr [x]"
| "insert_raising lt x (y # ys) =
     (case lt y x of
        Inl e \<Rightarrow> Inl e
      | Inr b \<Rightarrow>
          if b
          then (case insert_raising lt x ys of
                  Inl e \<Rightarrow> Inl e
                | Inr zs \<Rightarrow> Inr (y # zs))
          else Inr (x # y # ys))"

fun sorted_raising :: "('a \<Rightarrow> 'a \<Rightarrow> exn + bool) \<Rightarrow> 'a list \<Rightarrow> exn + 'a list" where
  "sorted_raising lt [] = Inr []"
| "sorted_raising lt (x # xs) =
     (case sorted_raising lt xs of
        Inl e \<Rightarrow> Inl e
      | Inr ys \<Rightarrow> insert_raising lt x ys)"

definition nsmallest ::
  "nat \<Rightarrow> 'a list \<Rightarrow> ('a \<Rightarrow> 'a \<Rightarrow> exn + bool) \<Rightarrow> exn + 'a list" where
  "nsmallest n ls lt =
     (case sorted_raising lt ls of Inl e \<Rightarrow> Inl e | Inr ys \<Rightarrow> Inr (take n ys))"

text \<open>
  The warning handed to the logger, represented by the values that are formatted into
  its message: the total size and the reported \<open>(size, entry)\<close> lines in order. (The
  message text renders the sizes with \<^verbatim>\<open>size_text\<close>.)
\<close>

record CacheWarning =
  folder_size :: nat
  to_report :: "(nat \<times> string) list"

text \<open>
  \<^verbatim>\<open>report_cache_folder_size\<close>, as a function of the listing of the cache folder:
  \<open>None\<close> when it returns without logging, otherwise the warning it logs.
\<close>

definition report_cache_folder_size :: "(string \<times> node) list \<Rightarrow> exn + CacheWarning option" where
  "report_cache_folder_size listing =
     (let ls = map size_and_label listing;
          total = sum_list (map fst ls)
      in if total < CACHE_FOLDER_SIZE_THRESHOLD then Inr None
         else (case nsmallest 10 ls key_less of
                 Inl e \<Rightarrow> Inl e
               | Inr reported \<Rightarrow>
                   Inr (Some \<lparr>folder_size = total, to_report = reported\<rparr>)))"

text \<open>
  The order the specification describes: larger size first, and among equal sizes the
  smaller text first. \<open>listed_before\<close> is that order on \<open>(size, text)\<close> pairs.
\<close>

definition listed_before :: "nat \<times> string \<Rightarrow> nat \<times> string \<Rightarrow> bool" where
  "listed_before a b = (fst a > fst b \<or> (fst a = fst b \<and> snd a < snd b))"

text \<open>The same order with the tie broken by the entry's own name, as the listing has it.\<close>

definition size_and_name :: "string \<times> node \<Rightarrow> nat \<times> string" where
  "size_and_name e = (get_entry_size (snd e), fst e)"

section \<open>\<^verbatim>\<open>download_and_unpack_tarball\<close>\<close>

text \<open>
  The state the operation reads and changes: the entries of the cache folder, and three
  logs that record, in order, every tarball URL requested, every directory an
  extraction was started for, and every warning logged. A path
  \<^verbatim>\<open>./tiny_jsdelivr_cache/<name>\<close> denotes the entry \<open>name\<close> of the cache folder.
\<close>

record world =
  cache_folder :: "(string \<times> node) list"
  requested :: "string list"
  unpacked :: "string list"
  logged :: "CacheWarning list"

text \<open>
  The collaborators outside the repository. \<open>requests_get\<close> is \<^verbatim>\<open>requests.get\<close> for a
  tarball: it raises, or returns a status code and the body. \<open>tarfile_extract\<close> is
  \<^verbatim>\<open>tarfile.open\<close> followed by \<^verbatim>\<open>extractall\<close> on a tarball's content: it raises, or
  yields the entries of the directory it creates. \<open>registry_get\<close> is \<^verbatim>\<open>requests.get\<close>
  for a registry document, with the outcome of \<^verbatim>\<open>r.json()\<close>. The page functions are
  those of \<^verbatim>\<open>tiny_htmls\<close>; \<open>path_lookup\<close> is the operating system's resolution of a
  path below the cache folder; \<open>path_str\<close> is \<^verbatim>\<open>str\<close> of a path object.
\<close>

record collaborators =
  registry_url_begin :: string
  registry_get :: "string \<Rightarrow> exn + nat \<times> (exn + ValidRegistryJson)"
  requests_get :: "string \<Rightarrow> exn + nat \<times> string"
  tarfile_extract :: "string \<Rightarrow> exn + (string \<times> node) list"
  favicon_ico :: "string option"
  all_versions_page :: "ValidRegistryJson \<Rightarrow> PathInfo \<Rightarrow> exn + string"
  versions_page :: "string list \<Rightarrow> ValidRegistryJson \<Rightarrow> PathInfo \<Rightarrow> exn + string"
  dir_page :: "string \<Rightarrow> string \<Rightarrow> string list \<Rightarrow> exn + string"
  path_lookup :: "(string \<times> node) list \<Rightarrow> string \<Rightarrow> node option"
  path_str :: "PurePosixPathThatMightBeDir \<Rightarrow> string"
  json_load :: "string \<Rightarrow> exn + json"
  guess_file_type :: "string \<Rightarrow> string option \<times> string option"

text \<open>\<^verbatim>\<open>r.raise_for_status()\<close>: an error status raises \<open>HTTPError\<close>.\<close>

definition raise_for_status :: "nat \<Rightarrow> exn option" where
  "raise_for_status status = (if 400 \<le> status \<and> status < 600 then Some (HTTPError status) else None)"

text \<open>\<^verbatim>\<open>os.path.exists\<close> of an entry of the cache folder.\<close>

definition cache_exists :: "world \<Rightarrow> string \<Rightarrow> bool" where
  "cache_exists w name = dict_contains (cache_folder w) name"

text \<open>
  The first \<^verbatim>\<open>if\<close> of the function: when the tarball is not on disk, look its URL up
  in the registry document, request it, and write the body. The result is the new value
  of \<^verbatim>\<open>flag_new_dir_or_file_cached\<close>, or the exception raised; the state is returned
  in both cases.
\<close>

definition download_step ::
  "collaborators \<Rightarrow> ValidRegistryJson \<Rightarrow> string \<Rightarrow> string \<Rightarrow> world \<Rightarrow> (exn + bool) \<times> world" where
  "download_step env registry_json exact_version local_name w =
     (if \<not> cache_exists w (local_name @ ''.tgz'')
      then (case dict_getitem (versions registry_json) exact_version of
              Inl e \<Rightarrow> (Inl e, w)
            | Inr version_value \<Rightarrow>
                let tarball_url = tarball (dist version_value);
                    w1 = w\<lparr>requested := requested w @ [tarball_url]\<rparr>
                in (case requests_get env tarball_url of
                      Inl e \<Rightarrow> (Inl e, w1)
                    | Inr (status, content) \<Rightarrow>
                        (case raise_for_status status of
                           Some e \<Rightarrow> (Inl e, w1)
                         | None \<Rightarrow>
                             (Inr True,
                              w1\<lparr>cache_folder :=
                                   cache_folder w1 @ [(local_name @ ''.tgz'', File content)]\<rparr>))))
      else (Inr False, w))"

text \<open>
  The second \<^verbatim>\<open>if\<close>: when the directory is not on disk, open the tarball and extract
  it into the directory. Opening a missing path or a directory raises \<open>OSError\<close>.
\<close>

definition unpack_step :: "collaborators \<Rightarrow> string \<Rightarrow> world \<Rightarrow> (exn + bool) \<times> world" where
  "unpack_step env local_name w =
     (if \<not> cache_exists w local_name
      then (let w1 = w\<lparr>unpacked := unpacked w @ [local_name]\<rparr> in
            case map_of (cache_folder w) (local_name @ ''.tgz'') of
              None \<Rightarrow> (Inl (OSError ''No such file or directory''), w1)
            | Some (Dir entries) \<Rightarrow> (Inl (OSError ''Is a directory''), w1)
            | Some (File content) \<Rightarrow>
                (case tarfile_extract env content of
                   Inl e \<Rightarrow> (Inl e, w1)
                 | Inr tree \<Rightarrow>
                     (Inr True,
                      w1\<lparr>cache_folder := cache_folder w1 @ [(local_name, Dir tree)]\<rparr>)))
      else (Inr False, w))"

text \<open>The final \<^verbatim>\<open>if\<close>: the size report, whose warning goes to the application's logger.\<close>

definition report_step :: "world \<Rightarrow> exn option \<times> world" where
  "report_step w =
     (case report_cache_folder_size (cache_folder w) of
        Inl e \<Rightarrow> (Some e, w)
      | Inr None \<Rightarrow> (None, w)
      | Inr (Some msg) \<Rightarrow> (None, w\<lparr>logged := logged w @ [msg]\<rparr>))"

text \<open>
  The whole function: \<open>None\<close> when it returns, \<open>Some e\<close> when it raises \<open>e\<close>, with the
  state it leaves behind.
\<close>

definition download_and_unpack_tarball ::
  "collaborators \<Rightarrow> ValidRegistryJson \<Rightarrow> string \<Rightarrow> string \<Rightarrow> world \<Rightarrow> exn option \<times> world" where
  "download_and_unpack_tarball env registry_json exact_version local_name w =
     (case download_step env registry_json exact_version local_name w of
        (Inl e, w1) \<Rightarrow> (Some e, w1)
      | (Inr flag1, w1) \<Rightarrow>
          (case unpack_step env local_name w1 of
             (Inl e, w2) \<Rightarrow> (Some e, w2)
           | (Inr flag2, w2) \<Rightarrow>
               if flag1 \<or> flag2 then report_step w2 else (None, w2)))"

section \<open>The request handler\<close>

datatype mime =
    MimeNone
  | MimeStr string
  | MimeTuple "string option" "string option"

text \<open>
  The body of a response: text or bytes, or the text
  \<^verbatim>\<open>f"Request Not Valid:\n{e}"\<close> represented by the exception it prints.
\<close>

datatype body = Content string | NotValidReport exn

record Response =
  resp_status :: nat
  resp_mime :: mime
  resp_body :: body

definition CONTENT_TYPE_UTF_8_TEXT :: string where
  "CONTENT_TYPE_UTF_8_TEXT = ''text/plain''"

definition CONTENT_TYPE_UTF_8_HTML :: string where
  "CONTENT_TYPE_UTF_8_HTML = ''text/html''"

definition CONTENT_TYPE_IMAGE_ICO :: string where
  "CONTENT_TYPE_IMAGE_ICO = ''image/icon''"

definition make_response_altered :: "body \<Rightarrow> nat \<Rightarrow> mime \<Rightarrow> Response" where
  "make_response_altered c status_code altered_mime_type =
     \<lparr>resp_status = status_code, resp_mime = altered_mime_type, resp_body = c\<rparr>"

text \<open>\<^verbatim>\<open>get_registry_json\<close>\<close>

definition get_registry_json :: "collaborators \<Rightarrow> string \<Rightarrow> exn + ValidRegistryJson" where
  "get_registry_json env pkg =
     (case registry_get env (registry_url_begin env @ ''/'' @ pkg) of
        Inl e \<Rightarrow> Inl e
      | Inr (status, parsed) \<Rightarrow>
          if status = 404
          then Inl (new_RequestNotValidError 404 (''package '' @ pkg @ '' not found''))
          else (case raise_for_status status of
                  Some e \<Rightarrow> Inl e
                | None \<Rightarrow> parsed))"

text \<open>
  \<^verbatim>\<open>give_entry_file\<close>, \<^verbatim>\<open>give_directory\<close>, \<^verbatim>\<open>give_file\<close> and
  \<^verbatim>\<open>give_file_or_dir\<close>. Reading a directory as a file and listing a file as a
  directory raise \<open>OSError\<close>.
\<close>

definition cache_path :: "string \<Rightarrow> string" where
  "cache_path rest = ''./'' @ CACHE_FOLDER @ ''/'' @ rest"

definition read_file :: "collaborators \<Rightarrow> world \<Rightarrow> string \<Rightarrow> exn + string" where
  "read_file env w p =
     (case path_lookup env (cache_folder w) p of
        None \<Rightarrow> Inl (OSError ''No such file or directory'')
      | Some (Dir entries) \<Rightarrow> Inl (OSError ''Is a directory'')
      | Some (File c) \<Rightarrow> Inr c)"

definition give_entry_file :: "collaborators \<Rightarrow> PathInfo \<Rightarrow> string \<Rightarrow> world \<Rightarrow> exn + Response" where
  "give_entry_file env path_info local_name w =
     (let package_json_path = cache_path (local_name @ ''/package/package.json'') in
      if path_lookup env (cache_folder w) package_json_path = None
      then Inl (new_RequestNotValidError 404
                  (Couldnt @ '' find the '' @ backquoted ''package.json'' @ '' in ''
                     @ package_name path_info @ ''.''))
      else (case read_file env w package_json_path of
              Inl e \<Rightarrow> Inl e
            | Inr text \<Rightarrow>
          (case json_load env text of
              Inl e \<Rightarrow> Inl e
            | Inr package_json \<Rightarrow>
          (case find_entry_file_from_package_json package_json of
              Inl e \<Rightarrow> Inl e
            | Inr None \<Rightarrow>
                Inl (new_RequestNotValidError 404
                       ''Error: No entry file path found in package.json'')
            | Inr (Some path_from_package) \<Rightarrow>
                if path_from_package = []
                then Inl (new_RequestNotValidError 404
                            ''Error: No entry file path found in package.json'')
                else
                  let path_from_script =
                        cache_path (local_name @ ''/package/'' @ path_from_package)
                  in if path_lookup env (cache_folder w) path_from_script = None
                     then Inl (new_RequestNotValidError 404
                                 (Couldnt @ '' find the entry file '' @ path_from_script
                                    @ '' in '' @ package_name path_info @ ''.''))
                     else (case read_file env w path_from_script of
                             Inl e \<Rightarrow> Inl e
                           | Inr c \<Rightarrow>
                               let guess = guess_file_type env path_from_script in
                               Inr (make_response_altered (Content c) 200
                                      (MimeTuple (fst guess) (snd guess))))))))"

definition give_directory :: "collaborators \<Rightarrow> PathInfo \<Rightarrow> string \<Rightarrow> world \<Rightarrow> exn + Response" where
  "give_directory env path_info local_name w =
     (case obj_absolute_path path_info of
        None \<Rightarrow> Inl AttributeError
      | Some obj \<Rightarrow>
          let path_from_script = cache_path (local_name @ ''/package'' @ path_str env obj) in
          (case path_lookup env (cache_folder w) path_from_script of
             None \<Rightarrow>
               Inl (new_RequestNotValidError 404
                      (Couldnt @ '' find the directory '' @ path_from_script
                         @ '' in '' @ package_name path_info @ ''.''))
           | Some (File c) \<Rightarrow> Inl (OSError ''Not a directory'')
           | Some (Dir entries) \<Rightarrow>
               (case dir_page env local_name (path_str env obj) (dict_keys entries) of
                  Inl e \<Rightarrow> Inl e
                | Inr html \<Rightarrow>
                    Inr (make_response_altered (Content html) 200
                           (MimeStr CONTENT_TYPE_UTF_8_HTML)))))"

definition give_file :: "collaborators \<Rightarrow> PathInfo \<Rightarrow> string \<Rightarrow> world \<Rightarrow> exn + Response" where
  "give_file env path_info local_name w =
     (case obj_absolute_path path_info of
        None \<Rightarrow> Inl AttributeError
      | Some obj \<Rightarrow>
          let path_from_script = cache_path (local_name @ ''/package'' @ path_str env obj) in
          if path_lookup env (cache_folder w) path_from_script = None
          then Inl (new_RequestNotValidError 404
                      (Couldnt @ '' find the requested file '' @ path_from_script
                         @ '' in '' @ package_name path_info @ ''.''))
          else (case read_file env w path_from_script of
                  Inl e \<Rightarrow> Inl e
                | Inr c \<Rightarrow>
                    let guess = guess_file_type env path_from_script in
                    Inr (make_response_altered (Content c) 200
                           (MimeTuple (fst guess) (snd guess)))))"

definition give_file_or_dir :: "collaborators \<Rightarrow> PathInfo \<Rightarrow> string \<Rightarrow> world \<Rightarrow> exn + Response" where
  "give_file_or_dir env path_info local_name w =
     (case obj_absolute_path path_info of
        None \<Rightarrow> give_entry_file env path_info local_name w
      | Some obj \<Rightarrow>
          if is_dir obj then give_directory env path_info local_name w
          else give_file env path_info local_name w)"

text \<open>
  \<^verbatim>\<open>handle_path\<close>: the response, or the exception that leaves the function, and the
  state afterwards.
\<close>

definition handle_path ::
  "('v, 'r) nodesemver \<Rightarrow> collaborators \<Rightarrow> string \<Rightarrow> world \<Rightarrow> (exn + Response) \<times> world" where
  "handle_path lib env abs_path w =
     (if abs_path = ''/favicon.ico''
      then (case favicon_ico env of
              None \<Rightarrow> (Inl (RuntimeWarning ''favicon.ico not found''), w)
            | Some icon \<Rightarrow>
                (Inr (make_response_altered (Content icon) 200 (MimeStr CONTENT_TYPE_IMAGE_ICO)),
                 w))
      else
     (case PathInfo_make abs_path of
        Inl e \<Rightarrow> (Inl e, w)
      | Inr path_info \<Rightarrow>
     (case get_registry_json env (package_name path_info) of
        Inl e \<Rightarrow> (Inl e, w)
      | Inr registry_json \<Rightarrow>
     (case FeasibleVersionsList_make lib (version_spec_str path_info) registry_json of
        Inl e \<Rightarrow> (Inl e, w)
      | Inr feasible_vers \<Rightarrow>
          if length (feasible_versions feasible_vers) = 0
          then (case all_versions_page env registry_json path_info of
                  Inl e \<Rightarrow> (Inl e, w)
                | Inr html \<Rightarrow>
                    (Inr (make_response_altered (Content html) 400
                            (MimeStr CONTENT_TYPE_UTF_8_HTML)), w))
          else if \<not> version_is_designated feasible_vers
          then (case versions_page env (feasible_versions feasible_vers)
                       registry_json path_info of
                  Inl e \<Rightarrow> (Inl e, w)
                | Inr html \<Rightarrow>
                    (Inr (make_response_altered (Content html) 200
                            (MimeStr CONTENT_TYPE_UTF_8_HTML)), w))
          else if \<not> length (feasible_versions feasible_vers) = 1
          then (Inl AssertionError, w)
          else
            let exact_version = hd (feasible_versions feasible_vers);
                local_name = package_name path_info @ ''-'' @ exact_version
            in (case download_and_unpack_tarball env registry_json exact_version
                       local_name w of
                  (Some e, w1) \<Rightarrow> (Inl e, w1)
                | (None, w1) \<Rightarrow> (give_file_or_dir env path_info local_name w1, w1))))))"

text \<open>
  \<^verbatim>\<open>delivr\<close>: a \<open>RequestNotValidError\<close> becomes a response with its status code;
  every other exception is raised again and leaves the handler (the framework then
  answers with a server error).
\<close>

definition delivr ::
  "('v, 'r) nodesemver \<Rightarrow> collaborators \<Rightarrow> string \<Rightarrow> string \<Rightarrow> world
     \<Rightarrow> (exn + Response) \<times> world" where
  "delivr lib env thepath request_path w =
     (if \<not> ''/'' @ thepath = request_path then (Inl AssertionError, w)
      else (case handle_path lib env request_path w of
              (Inl (RequestNotValidError status_code message), w1) \<Rightarrow>
                (Inr (make_response_altered
                        (NotValidReport (RequestNotValidError status_code message))
                        status_code (MimeStr CONTENT_TYPE_UTF_8_TEXT)), w1)
            | (Inl e, w1) \<Rightarrow> (Inl e, w1)
            | (Inr resp, w1) \<Rightarrow> (Inr resp, w1)))"

text \<open>The outcome classes of the error-handling design.\<close>

definition is_client_fault :: "(exn + Response) \<times> world \<Rightarrow> bool" where
  "is_client_fault r =
     (case fst r of Inr resp \<Rightarrow> 400 \<le> resp_status resp \<and> resp_status resp < 500 | Inl e \<Rightarrow> False)"

definition is_server_error :: "(exn + Response) \<times> world \<Rightarrow> bool" where
  "is_server_error r = (case fst r of Inr resp \<Rightarrow> False | Inl e \<Rightarrow> True)"

section \<open>Example data\<close>

text \<open>
  A small stand-in for the semver library, used to run the definitions on concrete
  inputs: it knows three versions and the one range \<open>^1\<close>, and raises on everything
  else.
\<close>

definition demo_lib :: "(string, string) nodesemver" where
  "demo_lib =
     \<lparr>valid = (\<lambda>s loose. if s = ''1.0.0'' \<or> s = ''1.5.0'' \<or> s = ''2.0.0''
                          then Inr (Some s) else Inl AttributeError),
      Range = (\<lambda>s loose. if s = ''^1'' then Inr s else Inl (ValueError ''Invalid range'')),
      satisfies = (\<lambda>v r. Inr (v = ''1.0.0'' \<or> v = ''1.5.0''))\<rparr>"

definition demo_registry :: ValidRegistryJson where
  "demo_registry =
     \<lparr>dist_tags = [(''latest'', ''2.0.0''), (''all'', ''1.0.0''), (''old'', ''0.1.0'')],
      versions = [(''1.0.0'', \<lparr>dist = \<lparr>tarball = ''https://r/demo-1.0.0.tgz''\<rparr>\<rparr>),
                  (''1.5.0'', \<lparr>dist = \<lparr>tarball = ''https://r/demo-1.5.0.tgz''\<rparr>\<rparr>),
                  (''2.0.0'', \<lparr>dist = \<lparr>tarball = ''https://r/demo-2.0.0.tgz''\<rparr>\<rparr>)]\<rparr>"

text \<open>
  Collaborators for the examples: the registry serves \<open>demo_registry\<close> for the package
  \<open>demo\<close> and answers 404 for every other package; every tarball request succeeds; every
  tarball unpacks to a \<open>package\<close> directory with two files.
\<close>

definition demo_env :: collaborators where
  "demo_env =
     \<lparr>registry_url_begin = ''https://registry.npmjs.org'',
      registry_get = (\<lambda>url. if url = ''https://registry.npmjs.org/demo''
                               then Inr (200, Inr demo_registry)
                               else Inr (404, Inl (LibraryError ''no json''))),
      requests_get = (\<lambda>url. Inr (200, ''tgz-bytes'')),
      tarfile_extract = (\<lambda>bytes. Inr [(''package'',
                           Dir [(''package.json'', File ''{}''), (''index.js'', File ''js'')])]),
      favicon_ico = None,
      all_versions_page = (\<lambda>registry_json path_info. Inr ''all versions''),
      versions_page = (\<lambda>vers registry_json path_info. Inr ''versions''),
      dir_page = (\<lambda>local_name p files. Inr ''dir''),
      path_lookup = (\<lambda>listing p. None),
      path_str = path_text,
      json_load = (\<lambda>text. Inr (JObject [])),
      guess_file_type = (\<lambda>p. (None, None))\<rparr>"

definition demo_world :: world where
  "demo_world = \<lparr>cache_folder = [], requested = [], unpacked = [], logged = []\<rparr>"


text \<open>
  A cache folder with two entries of one mebibyte each: a directory \<open>a\<close> and a file
  \<open>a.txt\<close>.
\<close>

definition tie_listing :: "(string \<times> node) list" where
  "tie_listing =
     [(''a'', Dir [(''f'', File (replicate 1048576 CHR ''x''))]),
      (''a.txt'', File (replicate 1048576 CHR ''x''))]"


section \<open>Properties of version resolution\<close>

lemma dict_contains_keys: "dict_contains d k \<longleftrightarrow> k \<in> set (dict_keys d)"
  by (simp add: dict_contains_def dict_keys_def map_of_eq_None_iff)


text \<open>
  Claim C1. When \<^verbatim>\<open>is_valid_version\<close> accepts the specifier \<open>v\<close>, resolution returns
  the one-element list \<open>[v]\<close>, designated, if \<open>v\<close> is a key of the registry's versions,
  and the empty list, not designated, if it is not. The library is a parameter; of it
  the statement assumes only that the two literals \<open>all\<close> and \<open>dist-tags\<close>, which the
  method tests first, are not versions.
\<close>

theorem exact_version_resolution:
  assumes "is_valid_version lib v"
    and "\<not> is_valid_version lib ''all''"
    and "\<not> is_valid_version lib ''dist-tags''"
  shows "(v \<in> set (dict_keys (versions R)) \<longrightarrow>
            FeasibleVersionsList_make lib v R =
              Inr \<lparr>feasible_versions = [v], version_is_designated = True\<rparr>)
       \<and> (v \<notin> set (dict_keys (versions R)) \<longrightarrow>
            FeasibleVersionsList_make lib v R =
              Inr \<lparr>feasible_versions = [], version_is_designated = False\<rparr>)"
proof -
  from assms have "v \<noteq> ''all''" and "v \<noteq> ''dist-tags''" by auto
  with assms(1) show ?thesis
    by (simp add: FeasibleVersionsList_make_def dict_contains_keys)
qed

theorem exact_version_resolution_witness:
  "FeasibleVersionsList_make demo_lib ''1.5.0'' demo_registry =
     Inr \<lparr>feasible_versions = [''1.5.0''], version_is_designated = True\<rparr>
   \<and> FeasibleVersionsList_make demo_lib ''2.0.0'' (demo_registry\<lparr>versions := []\<rparr>) =
     Inr \<lparr>feasible_versions = [], version_is_designated = False\<rparr>"
proof -
  have a: "is_valid_version demo_lib ''1.5.0''" "is_valid_version demo_lib ''2.0.0''"
    and b: "\<not> is_valid_version demo_lib ''all''"
    and c: "\<not> is_valid_version demo_lib ''dist-tags''"
    by (simp_all add: is_valid_version_def demo_lib_def)
  show ?thesis
    using exact_version_resolution [OF a(1) b c, of demo_registry]
      exact_version_resolution [OF a(2) b c, of "demo_registry\<lparr>versions := []\<rparr>"]
    by (simp add: demo_registry_def dict_keys_def)
qed



text \<open>
  Claim C3. For a specifier that is neither literal and not an exact version, when
  building the range object raises, whatever the exception, resolution does not raise:
  it returns the tagged version, designated, when the specifier is a key of the
  dist-tags, and the empty list, not designated, when it is not. And resolution returns
  a result on every specifier and every registry document (the last conjunct, which
  depends on no assumption).
\<close>

theorem range_failure_falls_back_to_tag:
  assumes "s \<noteq> ''all''" and "s \<noteq> ''dist-tags''"
    and "\<not> is_valid_version lib s"
    and "NodeVersionRange lib s = Inl e"
  shows "(\<forall>v. map_of (dist_tags R) s = Some v \<longrightarrow>
            FeasibleVersionsList_make lib s R =
              Inr \<lparr>feasible_versions = [v], version_is_designated = True\<rparr>)
       \<and> (s \<notin> set (dict_keys (dist_tags R)) \<longrightarrow>
            FeasibleVersionsList_make lib s R =
              Inr \<lparr>feasible_versions = [], version_is_designated = False\<rparr>)
       \<and> (\<exists>res. FeasibleVersionsList_make lib s' R' = Inr res)"
proof (intro conjI allI impI)
  fix v assume "map_of (dist_tags R) s = Some v"
  with assms show "FeasibleVersionsList_make lib s R =
      Inr \<lparr>feasible_versions = [v], version_is_designated = True\<rparr>"
    by (simp add: FeasibleVersionsList_make_def range_attempt_def tag_attempt_def
        dict_contains_def dict_getitem_def)
next
  assume "s \<notin> set (dict_keys (dist_tags R))"
  with assms show "FeasibleVersionsList_make lib s R =
      Inr \<lparr>feasible_versions = [], version_is_designated = False\<rparr>"
    by (simp add: FeasibleVersionsList_make_def range_attempt_def tag_attempt_def
        dict_contains_keys)
next
  show "\<exists>res. FeasibleVersionsList_make lib s' R' = Inr res"
    by (simp add: FeasibleVersionsList_make_def split: sum.splits)
qed

theorem range_failure_falls_back_to_tag_witness:
  "FeasibleVersionsList_make demo_lib ''latest'' demo_registry =
     Inr \<lparr>feasible_versions = [''2.0.0''], version_is_designated = True\<rparr>
   \<and> FeasibleVersionsList_make demo_lib ''next'' demo_registry =
     Inr \<lparr>feasible_versions = [], version_is_designated = False\<rparr>"
proof -
  have a: "''latest'' \<noteq> ''all''" "''latest'' \<noteq> ''dist-tags''"
    and a': "''next'' \<noteq> ''all''" "''next'' \<noteq> ''dist-tags''" by simp_all
  have b: "\<not> is_valid_version demo_lib ''latest''" "\<not> is_valid_version demo_lib ''next''"
    by (simp_all add: is_valid_version_def demo_lib_def)
  have c: "NodeVersionRange demo_lib ''latest'' = Inl (ValueError ''Invalid range'')"
    "NodeVersionRange demo_lib ''next'' = Inl (ValueError ''Invalid range'')"
    by (simp_all add: NodeVersionRange_def demo_lib_def)
  show ?thesis
    using range_failure_falls_back_to_tag [OF a b(1) c(1), of demo_registry]
      range_failure_falls_back_to_tag [OF a' b(2) c(2), of demo_registry]
    by (simp add: demo_registry_def dict_keys_def)
qed

text \<open>
  Claim C6. The specifier \<open>all\<close> resolves to the keys of the registry's versions, not
  designated, for every registry document; a dist-tag named \<open>all\<close> changes nothing,
  since the dist-tags are not consulted.
\<close>

theorem all_lists_every_version:
  "FeasibleVersionsList_make lib ''all'' R =
     Inr \<lparr>feasible_versions = dict_keys (versions R), version_is_designated = False\<rparr>"
  by (simp add: FeasibleVersionsList_make_def)

theorem all_lists_every_version_witness:
  "map_of (dist_tags demo_registry) ''all'' = Some ''1.0.0''
   \<and> FeasibleVersionsList_make demo_lib ''all'' demo_registry =
     Inr \<lparr>feasible_versions = [''1.0.0'', ''1.5.0'', ''2.0.0''],
          version_is_designated = False\<rparr>"
  using all_lists_every_version [of demo_lib demo_registry]
  by (simp add: demo_registry_def dict_keys_def)

text \<open>
  Claim C10. Whenever resolution returns a designated result, its list of versions has
  exactly one element, so the handler's assertion on the length holds and taking the
  first element is defined.
\<close>

theorem designated_is_singleton:
  assumes "FeasibleVersionsList_make lib s R = Inr res"
    and "version_is_designated res"
  shows "length (feasible_versions res) = 1 \<and> (\<exists>v. feasible_versions res = [v])"
  using assms
  by (auto simp: FeasibleVersionsList_make_def range_attempt_def tag_attempt_def
      split: if_splits sum.splits)

theorem designated_is_singleton_witness:
  "\<exists>res. FeasibleVersionsList_make demo_lib ''1.5.0'' demo_registry = Inr res
     \<and> version_is_designated res \<and> length (feasible_versions res) = 1"
proof -
  have a: "FeasibleVersionsList_make demo_lib ''1.5.0'' demo_registry =
     Inr \<lparr>feasible_versions = [''1.5.0''], version_is_designated = True\<rparr>"
    by (simp add: FeasibleVersionsList_make_def is_valid_version_def demo_lib_def
        demo_registry_def dict_contains_def)
  have b: "version_is_designated \<lparr>feasible_versions = [''1.5.0''], version_is_designated = True\<rparr>"
    by simp
  from designated_is_singleton [OF a b] a b show ?thesis by blast
qed

section \<open>Properties of the request-path parser\<close>

lemma find_char_takeWhile:
  "Suc 0 \<le> i \<Longrightarrow> find_char c (Suc 0) xs i =
     (if c \<in> set xs then Some (i + length (takeWhile (\<lambda>x. x \<noteq> c) xs)) else None)"
  by (induction xs arbitrary: i) auto

lemma str_find_from_1:
  "str_find c (x # rest) (Suc 0) =
     (if c \<in> set rest then Some (Suc 0 + length (takeWhile (\<lambda>x. x \<noteq> c) rest)) else None)"
  by (simp add: str_find_def find_char_takeWhile)

lemma take_length_takeWhile: "take (length (takeWhile P xs)) xs = takeWhile P xs"
  by (induction xs) auto

lemma drop_length_takeWhile: "drop (length (takeWhile P xs)) xs = dropWhile P xs"
  by (induction xs) auto

lemma takeWhile_all: "c \<notin> set xs \<Longrightarrow> takeWhile (\<lambda>x. x \<noteq> c) xs = xs"
  by (induction xs) auto

lemma dropWhile_starts: "c \<in> set xs \<Longrightarrow> take (Suc 0) (dropWhile (\<lambda>x. x \<noteq> c) xs) = [c]"
  by (induction xs) auto

lemma str_split_no_sep: "count_list s sep = 0 \<Longrightarrow> str_split sep s = [s]"
  by (induction s) (auto split: if_splits)

lemma str_split_one_sep:
  "count_list s sep = 1 \<Longrightarrow>
     str_split sep s = [takeWhile (\<lambda>c. c \<noteq> sep) s, drop 1 (dropWhile (\<lambda>c. c \<noteq> sep) s)]"
proof (induction s)
  case Nil
  then show ?case by simp
next
  case (Cons c s)
  show ?case
  proof (cases "c = sep")
    case True
    with Cons.prems have "count_list s sep = 0" by simp
    with True show ?thesis by (simp add: str_split_no_sep)
  next
    case False
    with Cons.prems have "count_list s sep = 1" by simp
    with False Cons.IH show ?thesis by simp
  qed
qed

lemma PathInfo_make_on_segment:
  assumes "startswith path ''/''"
  shows "\<exists>obj. PathInfo_make path =
     (let head = path_segment path in
      if count_list head CHR ''@'' = 0
      then (if head = []
            then Inl (RequestNotValidError 400
                        (''package_name is empty, path: '' @ quoted_path path))
            else Inr \<lparr>package_name = head, version_spec_str = ''latest'',
                      obj_absolute_path = obj\<rparr>)
      else if count_list head CHR ''@'' = 1
      then (if takeWhile (\<lambda>c. c \<noteq> CHR ''@'') head = []
            then Inl (RequestNotValidError 400
                        (''package_name is empty, path: '' @ quoted_path path))
            else if drop 1 (dropWhile (\<lambda>c. c \<noteq> CHR ''@'') head) = []
            then Inl (RequestNotValidError 400
                        (''version_spec_str is empty, path: '' @ quoted_path path))
            else Inr \<lparr>package_name = takeWhile (\<lambda>c. c \<noteq> CHR ''@'') head,
                      version_spec_str = drop 1 (dropWhile (\<lambda>c. c \<noteq> CHR ''@'') head),
                      obj_absolute_path = obj\<rparr>)
      else Inl (RequestNotValidError 400
                  (''too many '' @ quoted_path ''@'' @ ''s in name and version part, path: ''
                     @ quoted_path path)))"
proof -
  from assms obtain rest where p: "path = CHR ''/'' # rest"
    by (cases path) (auto simp: startswith_def)
  show ?thesis
  proof (cases "CHR ''/'' \<in> set rest")
    case False
    then have seg: "path_segment path = rest"
      by (simp add: path_segment_def p takeWhile_all)
    have f: "str_find CHR ''/'' path 1 = None"
      using False by (simp add: p str_find_from_1)
    show ?thesis
      unfolding PathInfo_make_def Let_def seg f
      using assms
      by (auto simp: p new_RequestNotValidError_def str_split_one_sep str_split_no_sep)
  next
    case True
    let ?n = "length (takeWhile (\<lambda>x. x \<noteq> CHR ''/'') rest)"
    have seg: "path_segment path = takeWhile (\<lambda>x. x \<noteq> CHR ''/'') rest"
      by (simp add: path_segment_def p)
    have f: "str_find CHR ''/'' path 1 = Some (Suc ?n)"
      using True by (simp add: p str_find_from_1)
    have h: "drop 1 (take (Suc ?n) path) = takeWhile (\<lambda>x. x \<noteq> CHR ''/'') rest"
      by (simp add: p take_length_takeWhile)
    have a: "is_absolute (new_PurePosixPathThatMightBeDir (drop (Suc ?n) path))"
      using True
      by (simp add: p is_absolute_def new_PurePosixPathThatMightBeDir_def startswith_def
          drop_length_takeWhile dropWhile_starts)
    show ?thesis
      unfolding PathInfo_make_def Let_def seg f
      using assms a h
      by (auto simp: new_RequestNotValidError_def str_split_one_sep str_split_no_sep)
  qed
qed

text \<open>
  Claim C7. For a path that starts with a slash, parsing raises a
  \<open>RequestNotValidError\<close> (whose status is in the range 400 to 499) exactly when the
  segment between position 1 and the next slash has an empty part before its first
  \<open>@\<close>, or has one \<open>@\<close> with nothing after it, or has more than one \<open>@\<close>; for every
  other such path it returns a \<open>PathInfo\<close>. In particular \<open>/left@@right\<close> is rejected.
  The parser is a function of the path alone.
\<close>

theorem parse_fails_iff_segment_malformed:
  assumes "startswith path ''/''"
  shows "(is_malformed_request (PathInfo_make path) \<longleftrightarrow> segment_malformed (path_segment path))
       \<and> (parse_succeeds (PathInfo_make path) \<longleftrightarrow> \<not> segment_malformed (path_segment path))
       \<and> is_malformed_request (PathInfo_make ''/left@@right'')"
proof -
  have c: "is_malformed_request (PathInfo_make ''/left@@right'')"
    by (simp add: PathInfo_make_def startswith_def str_find_def Let_def
        new_PurePosixPathThatMightBeDir_def is_absolute_def endswith_def
        new_RequestNotValidError_def is_malformed_request_def)
  from PathInfo_make_on_segment [OF assms] obtain obj where
    m: "PathInfo_make path = (let head = path_segment path in
      if count_list head CHR ''@'' = 0
      then (if head = []
            then Inl (RequestNotValidError 400
                        (''package_name is empty, path: '' @ quoted_path path))
            else Inr \<lparr>package_name = head, version_spec_str = ''latest'',
                      obj_absolute_path = obj\<rparr>)
      else if count_list head CHR ''@'' = 1
      then (if takeWhile (\<lambda>c. c \<noteq> CHR ''@'') head = []
            then Inl (RequestNotValidError 400
                        (''package_name is empty, path: '' @ quoted_path path))
            else if drop 1 (dropWhile (\<lambda>c. c \<noteq> CHR ''@'') head) = []
            then Inl (RequestNotValidError 400
                        (''version_spec_str is empty, path: '' @ quoted_path path))
            else Inr \<lparr>package_name = takeWhile (\<lambda>c. c \<noteq> CHR ''@'') head,
                      version_spec_str = drop 1 (dropWhile (\<lambda>c. c \<noteq> CHR ''@'') head),
                      obj_absolute_path = obj\<rparr>)
      else Inl (RequestNotValidError 400
                  (''too many '' @ quoted_path ''@'' @ ''s in name and version part, path: ''
                     @ quoted_path path)))" by blast
  have z: "count_list head CHR ''@'' = 0 \<Longrightarrow> takeWhile (\<lambda>c. c \<noteq> CHR ''@'') head = head"
    for head :: string
    by (induction head) (auto split: if_splits)
  have "is_malformed_request (PathInfo_make path) \<longleftrightarrow> segment_malformed (path_segment path)"
    unfolding m Let_def segment_malformed_def is_malformed_request_def
    by (auto simp: z)
  moreover have "parse_succeeds (PathInfo_make path) \<longleftrightarrow> \<not> segment_malformed (path_segment path)"
    unfolding m Let_def segment_malformed_def parse_succeeds_def
    by (auto simp: z)
  ultimately show ?thesis using c by blast
qed

theorem parse_fails_iff_segment_malformed_witness:
  "is_malformed_request (PathInfo_make ''/@1.0.0/x'')
   \<and> is_malformed_request (PathInfo_make ''/lodash@'')
   \<and> PathInfo_make ''/lodash@>=1.0.0/lib/'' =
       Inr \<lparr>package_name = ''lodash'', version_spec_str = ''>=1.0.0'',
            obj_absolute_path = Some \<lparr>path_text = ''/lib/'', is_dir = True\<rparr>\<rparr>
   \<and> PathInfo_make ''/pkg'' =
       Inr \<lparr>package_name = ''pkg'', version_spec_str = ''latest'', obj_absolute_path = None\<rparr>"
proof -
  have s: "startswith ''/@1.0.0/x'' ''/''" "startswith ''/lodash@'' ''/''"
    by (simp_all add: startswith_def)
  have a: "segment_malformed (path_segment ''/@1.0.0/x'')"
    "segment_malformed (path_segment ''/lodash@'')"
    by (simp_all add: segment_malformed_def path_segment_def)
  have b: "PathInfo_make ''/lodash@>=1.0.0/lib/'' =
       Inr \<lparr>package_name = ''lodash'', version_spec_str = ''>=1.0.0'',
            obj_absolute_path = Some \<lparr>path_text = ''/lib/'', is_dir = True\<rparr>\<rparr>"
    "PathInfo_make ''/pkg'' =
       Inr \<lparr>package_name = ''pkg'', version_spec_str = ''latest'', obj_absolute_path = None\<rparr>"
    by (simp_all add: PathInfo_make_def startswith_def str_find_def Let_def
        new_PurePosixPathThatMightBeDir_def is_absolute_def endswith_def)
  show ?thesis
    using parse_fails_iff_segment_malformed [OF s(1)] parse_fails_iff_segment_malformed [OF s(2)]
      a b by simp
qed


section \<open>Properties of the entry-file derivation\<close>

lemma entry_attempt_Cons:
  "entry_attempt (JObject d) (k # ks) =
     (case map_of d k of None \<Rightarrow> Inl (KeyError k) | Some w \<Rightarrow> entry_attempt w ks)"
  by (simp add: entry_attempt_def dict_getitem_def split: option.splits)

lemma entry_attempt_not_object:
  "\<forall>d. v \<noteq> JObject d \<Longrightarrow> entry_attempt v (k # ks) = Inl TypeError"
  by (cases v) (simp_all add: entry_attempt_def)

lemma entry_attempt_Nil:
  "entry_attempt v [] = assert_str v"
  by (simp add: entry_attempt_def)

lemma entry_attempt_other:
  "\<forall>d. v \<noteq> JObject d \<Longrightarrow> \<forall>s. v \<noteq> JString s \<Longrightarrow> \<exists>e. entry_attempt v ks = Inl e"
  by (cases v; cases ks) (simp_all add: entry_attempt_def)

lemma entry_attempt_cases:
  "(string_field v ks = None \<and> (\<exists>e. entry_attempt v ks = Inl e))
   \<or> (\<exists>s. string_field v ks = Some s \<and> entry_attempt v ks = Inr s)"
proof (induction v ks rule: string_field.induct)
  case (2 d k ks)
  then show ?case
    by (cases "map_of d k") (simp_all add: entry_attempt_Cons)
qed (simp_all add: entry_attempt_Nil entry_attempt_not_object entry_attempt_other)

text \<open>
  Claim C8. For every value loaded from a package's metadata file, the entry-file
  derivation returns, without raising, the first of the fields \<open>jsdelivr\<close>,
  \<open>exports["."]["default"]\<close>, \<open>exports["."]\<close> and \<open>main\<close>, in this order, that exists and is
  a string, and \<open>None\<close> when none of them does.
\<close>

theorem entry_file_first_present_string:
  "find_entry_file_from_package_json package_json = Inr (entry_file_spec package_json)"
proof -
  note c = entry_attempt_cases [of package_json]
  show ?thesis
    using c [of "[''jsdelivr'']"] c [of "[''exports'', ''.'', ''default'']"]
      c [of "[''exports'', ''.'']"] c [of "[''main'']"]
    unfolding find_entry_file_from_package_json_def entry_file_spec_def
    by (elim disjE conjE exE) simp_all
qed

theorem entry_file_first_present_string_witness:
  "find_entry_file_from_package_json
     (JObject [(''main'', JString ''index.js''),
               (''exports'', JObject [(''.'', JObject [(''default'', JString ''esm.js'')])]),
               (''jsdelivr'', JNumber ''1'')]) = Inr (Some ''esm.js'')
   \<and> find_entry_file_from_package_json
     (JObject [(''main'', JArray []), (''exports'', JString ''x.js'')]) = Inr None
   \<and> find_entry_file_from_package_json (JArray []) = Inr None"
  using entry_file_first_present_string
     [of "JObject [(''main'', JString ''index.js''),
               (''exports'', JObject [(''.'', JObject [(''default'', JString ''esm.js'')])]),
               (''jsdelivr'', JNumber ''1'')]"]
    entry_file_first_present_string
     [of "JObject [(''main'', JArray []), (''exports'', JString ''x.js'')]"]
    entry_file_first_present_string [of "JArray []"]
  by (simp add: entry_file_spec_def)


section \<open>Properties of the tarball cache\<close>













section \<open>Properties of the request handler\<close>

lemma handle_path_dangling:
  assumes "abs_path \<noteq> ''/favicon.ico''"
    and "PathInfo_make abs_path = Inr path_info"
    and "get_registry_json env (package_name path_info) = Inr R"
    and "FeasibleVersionsList_make lib (version_spec_str path_info) R =
           Inr \<lparr>feasible_versions = [v], version_is_designated = True\<rparr>"
    and "v \<notin> set (dict_keys (versions R))"
    and "\<not> cache_exists w (package_name path_info @ ''-'' @ v @ ''.tgz'')"
  shows "handle_path lib env abs_path w = (Inl (KeyError v), w)"
proof -
  from assms(5) have k: "dict_getitem (versions R) v = Inl (KeyError v)"
    by (simp add: dict_getitem_def dict_keys_def map_of_eq_None_iff split: option.splits)
  have d: "download_and_unpack_tarball env R v (package_name path_info @ ''-'' @ v) w =
      (Some (KeyError v), w)"
    using assms(6) by (simp add: download_and_unpack_tarball_def download_step_def k)
  show ?thesis
    using assms(1-4) d by (simp add: handle_path_def Let_def)
qed

text \<open>
  What the handler does for a dist-tag whose version is missing from the registry's
  versions: when the request designates that version and its tarball is not in the
  cache, looking up the tarball URL raises \<open>KeyError\<close>, and \<open>delivr\<close> raises it again.
\<close>

theorem dangling_tag_raises_key_error:
  assumes "thepath \<noteq> ''favicon.ico''"
    and "PathInfo_make (''/'' @ thepath) = Inr path_info"
    and "get_registry_json env (package_name path_info) = Inr R"
    and "map_of (dist_tags R) (version_spec_str path_info) = Some v"
    and "FeasibleVersionsList_make lib (version_spec_str path_info) R =
           Inr \<lparr>feasible_versions = [v], version_is_designated = True\<rparr>"
    and "v \<notin> set (dict_keys (versions R))"
    and "\<not> cache_exists w (package_name path_info @ ''-'' @ v @ ''.tgz'')"
  shows "delivr lib env thepath (''/'' @ thepath) w = (Inl (KeyError v), w)
       \<and> is_server_error (delivr lib env thepath (''/'' @ thepath) w)
       \<and> \<not> is_client_fault (delivr lib env thepath (''/'' @ thepath) w)"
proof -
  from assms(1) have "''/'' @ thepath \<noteq> ''/favicon.ico''" by simp
  from handle_path_dangling [OF this assms(2,3,5,6,7)]
  show ?thesis
    by (simp add: delivr_def is_server_error_def is_client_fault_def)
qed

lemma demo_parse: "PathInfo_make (''/'' @ ''demo@old'') =
    Inr \<lparr>package_name = ''demo'', version_spec_str = ''old'', obj_absolute_path = None\<rparr>"
  by (simp add: PathInfo_make_def startswith_def str_find_def Let_def)

lemma demo_fetch: "get_registry_json demo_env ''demo'' = Inr demo_registry"
  by (simp add: get_registry_json_def demo_env_def raise_for_status_def)

lemma demo_resolve_old: "FeasibleVersionsList_make demo_lib ''old'' demo_registry =
    Inr \<lparr>feasible_versions = [''0.1.0''], version_is_designated = True\<rparr>"
  by (simp add: FeasibleVersionsList_make_def is_valid_version_def demo_lib_def
      range_attempt_def NodeVersionRange_def tag_attempt_def dict_contains_def
      dict_getitem_def demo_registry_def)

theorem dangling_tag_raises_key_error_witness:
  "delivr demo_lib demo_env ''demo@old'' ''/demo@old'' demo_world =
     (Inl (KeyError ''0.1.0''), demo_world)"
proof -
  have a: "''demo@old'' \<noteq> ''favicon.ico''" by simp
  have b: "PathInfo_make (''/'' @ ''demo@old'') =
    Inr \<lparr>package_name = ''demo'', version_spec_str = ''old'', obj_absolute_path = None\<rparr>"
    by (rule demo_parse)
  have c: "get_registry_json demo_env
      (package_name \<lparr>package_name = ''demo'', version_spec_str = ''old'',
                      obj_absolute_path = None\<rparr>) = Inr demo_registry"
    by (simp add: demo_fetch)
  have d: "map_of (dist_tags demo_registry)
      (version_spec_str \<lparr>package_name = ''demo'', version_spec_str = ''old'',
                          obj_absolute_path = None\<rparr>) = Some ''0.1.0''"
    by (simp add: demo_registry_def)
  have e: "FeasibleVersionsList_make demo_lib
      (version_spec_str \<lparr>package_name = ''demo'', version_spec_str = ''old'',
                          obj_absolute_path = None\<rparr>) demo_registry =
    Inr \<lparr>feasible_versions = [''0.1.0''], version_is_designated = True\<rparr>"
    by (simp add: demo_resolve_old)
  have f: "''0.1.0'' \<notin> set (dict_keys (versions demo_registry))"
    by (simp add: demo_registry_def dict_keys_def)
  have g: "\<not> cache_exists demo_world
      (package_name \<lparr>package_name = ''demo'', version_spec_str = ''old'',
                      obj_absolute_path = None\<rparr> @ ''-'' @ ''0.1.0'' @ ''.tgz'')"
    by (simp add: cache_exists_def dict_contains_def demo_world_def)
  from dangling_tag_raises_key_error [OF a b c d e f g] show ?thesis by simp
qed

lemma demo_dangling_tag_request:
  "delivr demo_lib demo_env ''demo@old'' ''/demo@old'' demo_world =
     (Inl (KeyError ''0.1.0''), demo_world)"
  by (simp add: delivr_def handle_path_def PathInfo_make_def startswith_def str_find_def
      Let_def get_registry_json_def raise_for_status_def demo_env_def
      FeasibleVersionsList_make_def is_valid_version_def demo_lib_def range_attempt_def
      NodeVersionRange_def tag_attempt_def dict_contains_def dict_getitem_def
      demo_registry_def download_and_unpack_tarball_def download_step_def cache_exists_def
      demo_world_def)

text \<open>
  Claim C5. The specification asks that a request designating a dist-tag whose version
  is not a key of the registry's versions ends in a client-fault outcome of the
  ``not found'' kind. Evaluated on the example registry, whose tag \<open>old\<close> names the
  missing version 0.1.0, the request \<open>/demo@old\<close> ends instead with the \<open>KeyError\<close>
  leaving the handler: no response with a status between 400 and 499 is produced.
\<close>

theorem dangling_tag_is_server_error:
  "map_of (dist_tags demo_registry) ''old'' = Some ''0.1.0''
   \<and> ''0.1.0'' \<notin> set (dict_keys (versions demo_registry))
   \<and> FeasibleVersionsList_make demo_lib ''old'' demo_registry =
       Inr \<lparr>feasible_versions = [''0.1.0''], version_is_designated = True\<rparr>
   \<and> fst (delivr demo_lib demo_env ''demo@old'' ''/demo@old'' demo_world) =
       Inl (KeyError ''0.1.0'')
   \<and> \<not> is_client_fault (delivr demo_lib demo_env ''demo@old'' ''/demo@old'' demo_world)
   \<and> is_server_error (delivr demo_lib demo_env ''demo@old'' ''/demo@old'' demo_world)"
  by (simp add: demo_dangling_tag_request demo_resolve_old is_client_fault_def
      is_server_error_def) (simp add: demo_registry_def dict_keys_def)


section \<open>Properties of the size report\<close>

lemma sum_sizes: "sum_list (map fst (map size_and_label listing)) = get_folder_size listing"
  by (induction listing) (auto simp: size_and_label_def)

lemma key_less_listed_before:
  "snd a \<noteq> snd b \<Longrightarrow> key_less a b = Inr (listed_before a b)"
  by (auto simp: key_less_def compare_size_entry_def listed_before_def Let_def)

lemma listed_before_trans:
  "listed_before a b \<Longrightarrow> listed_before b c \<Longrightarrow> listed_before a c"
  by (auto simp: listed_before_def)

lemma listed_before_total:
  "snd a \<noteq> snd b \<Longrightarrow> \<not> listed_before a b \<Longrightarrow> listed_before b a"
  by (auto simp: listed_before_def)

lemma insert_raising_sorted:
  assumes "\<forall>y \<in> set ys. snd y \<noteq> snd x" and "sorted_wrt listed_before ys"
  shows "\<exists>zs. insert_raising key_less x ys = Inr zs \<and> mset zs = add_mset x (mset ys)
           \<and> sorted_wrt listed_before zs"
  using assms
proof (induction ys)
  case Nil
  then show ?case by simp
next
  case (Cons y ys)
  then have k: "key_less y x = Inr (listed_before y x)"
    by (simp add: key_less_listed_before)
  show ?case
  proof (cases "listed_before y x")
    case True
    from Cons obtain zs where z: "insert_raising key_less x ys = Inr zs"
      "mset zs = add_mset x (mset ys)" "sorted_wrt listed_before zs" by auto
    from z(2) have "set zs = insert x (set ys)"
      by (metis mset_eq_setD set_mset_add_mset_insert set_mset_mset)
    with True Cons.prems z show ?thesis by (auto simp: k)
  next
    case False
    with Cons.prems have xy: "listed_before x y" by (simp add: listed_before_total)
    with Cons.prems have "\<forall>z \<in> set ys. listed_before x z"
      by (auto intro: listed_before_trans)
    with False xy Cons.prems show ?thesis by (simp add: k)
  qed
qed

lemma sorted_raising_sorted:
  assumes "distinct (map snd ls)"
  shows "\<exists>ys. sorted_raising key_less ls = Inr ys \<and> mset ys = mset ls
           \<and> sorted_wrt listed_before ys"
  using assms
proof (induction ls)
  case Nil
  then show ?case by simp
next
  case (Cons x ls)
  then obtain ys where y: "sorted_raising key_less ls = Inr ys" "mset ys = mset ls"
    "sorted_wrt listed_before ys" by auto
  from y(2) have s: "set ys = set ls" by (metis set_mset_mset)
  from Cons.prems have "snd x \<notin> snd ` set ls" by simp
  with s have "\<forall>y \<in> set ys. snd y \<noteq> snd x" by (metis imageI)
  from insert_raising_sorted [OF this y(3)] y show ?case by auto
qed

lemma slash_in_label: "n @ ''/'' = m \<Longrightarrow> CHR ''/'' \<in> set m"
  by auto

lemma labels_distinct:
  assumes "distinct (map fst listing)" and "\<forall>e \<in> set listing. CHR ''/'' \<notin> set (fst e)"
  shows "distinct (map snd (map size_and_label listing))"
  using assms
proof (induction listing)
  case Nil
  then show ?case by simp
next
  case (Cons e listing)
  have "snd (size_and_label e) \<noteq> snd (size_and_label e')" if "e' \<in> set listing" for e'
  proof
    assume eq: "snd (size_and_label e) = snd (size_and_label e')"
    from that Cons.prems have ne: "fst e \<noteq> fst e'" and
      s: "CHR ''/'' \<notin> set (fst e)" "CHR ''/'' \<notin> set (fst e')" by auto
    from eq ne s show False
      by (auto simp: size_and_label_def split: if_splits
          dest: slash_in_label slash_in_label [OF sym])
  qed
  with Cons show ?case by auto
qed

text \<open>
  Claim C9, with ties broken by label. For every listing of the cache folder (its names are distinct
  and contain no slash), the size check logs a warning exactly when the sum of the
  recursively computed sizes of the entries is at or above the threshold; the warning
  carries that sum and lists the 10 entries that come first (all of them when there
  are fewer) in the order: larger size first, and among equal sizes the smaller
  label first, where the label of an entry is its name, followed by a slash when the
  entry is a directory.
\<close>

theorem size_report_lists_largest_by_label:
  assumes "distinct (map fst listing)" and "\<forall>e \<in> set listing. CHR ''/'' \<notin> set (fst e)"
  shows "\<exists>rs rest.
     report_cache_folder_size listing =
       (if get_folder_size listing < CACHE_FOLDER_SIZE_THRESHOLD then Inr None
        else Inr (Some \<lparr>folder_size = get_folder_size listing, to_report = rs\<rparr>))
     \<and> mset (rs @ rest) = mset (map size_and_label listing)
     \<and> length rs = min 10 (length listing)
     \<and> sorted_wrt listed_before rs
     \<and> (\<forall>y \<in> set rs. \<forall>x \<in> set rest. listed_before y x)"
proof -
  from sorted_raising_sorted [OF labels_distinct [OF assms]] obtain ys where
    y: "sorted_raising key_less (map size_and_label listing) = Inr ys"
    "mset ys = mset (map size_and_label listing)" "sorted_wrt listed_before ys" by blast
  from y(2) have l: "length ys = length listing"
    by (metis length_map size_mset)
  have a: "ys = take 10 ys @ drop 10 ys" by simp
  with y(3) have s: "sorted_wrt listed_before (take 10 ys @ drop 10 ys)" by simp
  have r: "report_cache_folder_size listing =
       (if get_folder_size listing < CACHE_FOLDER_SIZE_THRESHOLD then Inr None
        else Inr (Some \<lparr>folder_size = get_folder_size listing, to_report = take 10 ys\<rparr>))"
    by (simp add: report_cache_folder_size_def Let_def nsmallest_def y(1) sum_sizes
        del: map_map)
  from s [unfolded sorted_wrt_append]
  have "sorted_wrt listed_before (take 10 ys)"
    "\<forall>y \<in> set (take 10 ys). \<forall>x \<in> set (drop 10 ys). listed_before y x"
    by blast+
  with r y(2) l show ?thesis
    by (intro exI [of _ "take 10 ys"] exI [of _ "drop 10 ys"]) (simp add: min_def)
qed

lemma tie_report:
  "report_cache_folder_size tie_listing =
     Inr (Some \<lparr>folder_size = 2097152,
                to_report = [(1048576, ''a.txt''), (1048576, ''a/'')]\<rparr>)"
  by (simp add: report_cache_folder_size_def tie_listing_def size_and_label_def Let_def
      CACHE_FOLDER_SIZE_THRESHOLD_def nsmallest_def key_less_def compare_size_entry_def)

text \<open>
  The order of the names is not the order of the labels: of two entries of equal size,
  the directory \<open>a\<close> and the file \<open>a.txt\<close>, the name \<open>a\<close> is the smaller one, and the
  warning lists \<open>a.txt\<close> first.
\<close>

theorem ties_follow_label_not_name:
  "report_cache_folder_size tie_listing =
     Inr (Some \<lparr>folder_size = 2097152,
                to_report = [(1048576, ''a.txt''), (1048576, ''a/'')]\<rparr>)
   \<and> map size_and_name tie_listing = [(1048576, ''a''), (1048576, ''a.txt'')]
   \<and> listed_before (1048576, ''a'') (1048576, ''a.txt'')"
  by (simp add: tie_report) (simp add: tie_listing_def size_and_name_def listed_before_def)

theorem size_report_lists_largest_by_label_witness:
  "\<exists>rs. report_cache_folder_size tie_listing =
           Inr (Some \<lparr>folder_size = 2097152, to_report = rs\<rparr>)
        \<and> length rs = 2 \<and> sorted_wrt listed_before rs"
proof -
  have d: "distinct (map fst tie_listing)"
    and n: "\<forall>e \<in> set tie_listing. CHR ''/'' \<notin> set (fst e)"
    by (simp_all add: tie_listing_def)
  have g: "get_folder_size tie_listing = 2097152"
    by (simp add: tie_listing_def)
  from size_report_lists_largest_by_label [OF d n] g show ?thesis
    by (auto simp: CACHE_FOLDER_SIZE_THRESHOLD_def tie_listing_def)
qed


end
